theory Spec2Isabelle
  imports Complex_Main "HOL-Library.Word"
begin

unbundle bit_operations_syntax

section \<open>Python text\<close>

text \<open>
  A Python \<open>str\<close> is modelled as a \<open>string\<close>; each \<open>char\<close> stands for one code
  point, so \<open>length\<close> is Python's \<open>len\<close>, \<open>take n s\<close> is \<open>s[:n]\<close> and
  \<open>take n (drop i s)\<close> is \<open>s[i:i+n]\<close>.
\<close>

definition nl :: char where
  "nl = CHR 0x0A"

definition apos :: char where
  "apos = CHR 0x27"

definition dquote :: char where
  "dquote = CHR 0x22"

definition backslash :: char where
  "backslash = CHR 0x5C"

text \<open>\<open>s.startswith(p)\<close>.\<close>

definition startswith :: "string \<Rightarrow> string \<Rightarrow> bool" where
  "startswith s p = (take (length p) s = p)"

text \<open>
  \<open>name.lower()\<close> on ASCII letters: Starlette compares header names without regard to
  case by lower-casing them.
\<close>

definition lower_char :: "char \<Rightarrow> char" where
  "lower_char c =
     (if 65 \<le> (of_char c :: nat) \<and> (of_char c :: nat) \<le> 90
      then char_of ((of_char c :: nat) + 32) else c)"

definition lower :: "string \<Rightarrow> string" where
  "lower s = map lower_char s"

text \<open>\<open>str(n)\<close> for an integer: decimal digits, with a leading minus sign.\<close>

definition digit_char :: "nat \<Rightarrow> char" where
  "digit_char d = char_of (48 + d)"

function str_nat :: "nat \<Rightarrow> string" where
  "str_nat n = (if n < 10 then [digit_char n] else str_nat (n div 10) @ [digit_char (n mod 10)])"
  by pat_completeness auto
termination
  by (relation "measure (\<lambda>n. n)") auto

definition str_int :: "int \<Rightarrow> string" where
  "str_int i = (if i < 0 then CHR ''-'' # str_nat (nat (- i)) else str_nat (nat i))"

text \<open>\<open>sep.join(xs)\<close>.\<close>

fun join :: "string \<Rightarrow> string list \<Rightarrow> string" where
  "join sep [] = []"
| "join sep [x] = x"
| "join sep (x # y # ys) = x @ sep @ join sep (y # ys)"

section \<open>Trace identifiers: \<open>str(uuid.uuid4())\<close>\<close>

text \<open>
  \<open>uuid.uuid4()\<close> reads 16 random bytes, clears and sets the variant and version bits
  (\<open>int &= ~(0xc000 << 48); int |= 0x8000 << 48; int &= ~(0xf000 << 64); int |= 4 << 76\<close>)
  and \<open>str\<close> prints the 128-bit number as 32 lower-case hexadecimal digits in groups of
  8-4-4-4-12.  The random bytes are the environment's.
\<close>

definition uuid4 :: "128 word \<Rightarrow> 128 word" where
  "uuid4 r =
     ((((r AND NOT (push_bit 48 0xc000)) OR push_bit 48 0x8000)
        AND NOT (push_bit 64 0xf000)) OR push_bit 76 4)"

definition hex_digit :: "nat \<Rightarrow> char" where
  "hex_digit d = ''0123456789abcdef'' ! (d mod 16)"

definition hex32 :: "128 word \<Rightarrow> string" where
  "hex32 w = map (\<lambda>i. hex_digit (unat (drop_bit (4 * (31 - i)) w AND 0xF))) [0..<32]"

definition str_uuid :: "128 word \<Rightarrow> string" where
  "str_uuid w =
     (let h = hex32 w
      in take 8 h @ ''-'' @ take 4 (drop 8 h) @ ''-'' @ take 4 (drop 12 h) @ ''-''
         @ take 4 (drop 16 h) @ ''-'' @ drop 20 h)"

section \<open>JSON values and \<open>json.dumps\<close>\<close>

datatype json =
    JNull
  | JBool bool
  | JInt int
  | JStr string
  | JArr "json list"
  | JObj "(string \<times> json) list"

text \<open>
  \<open>json.dumps\<close> with its defaults: \<open>ensure_ascii\<close> escapes the quote, the backslash and
  every character outside the printable ASCII range; items are separated by \<open>", "\<close> and
  keys from values by \<open>": "\<close>.
\<close>

definition hex2 :: "nat \<Rightarrow> string" where
  "hex2 n = [hex_digit (n div 16), hex_digit n]"

definition escape_char :: "char \<Rightarrow> string" where
  "escape_char c =
     (if c = dquote then [backslash, dquote]
      else if c = backslash then [backslash, backslash]
      else if c = nl then [backslash, CHR ''n'']
      else if c = CHR 0x0D then [backslash, CHR ''r'']
      else if c = CHR 0x09 then [backslash, CHR ''t'']
      else if c = CHR 0x08 then [backslash, CHR ''b'']
      else if c = CHR 0x0C then [backslash, CHR ''f'']
      else if 32 \<le> (of_char c :: nat) \<and> (of_char c :: nat) \<le> 126 then [c]
      else [backslash, CHR ''u'', CHR ''0'', CHR ''0''] @ hex2 (of_char c))"

definition encode_basestring_ascii :: "string \<Rightarrow> string" where
  "encode_basestring_ascii s = [dquote] @ concat (map escape_char s) @ [dquote]"

fun json_dumps :: "json \<Rightarrow> string" where
  "json_dumps JNull = ''null''"
| "json_dumps (JBool b) = (if b then ''true'' else ''false'')"
| "json_dumps (JInt i) = str_int i"
| "json_dumps (JStr s) = encode_basestring_ascii s"
| "json_dumps (JArr xs) = ''['' @ join '', '' (map json_dumps xs) @ '']''"
| "json_dumps (JObj kvs) =
     ''{'' @ join '', '' (map (\<lambda>(k, v). encode_basestring_ascii k @ '': '' @ json_dumps v) kvs)
     @ ''}''"

text \<open>
  A decoded JSON object is a Python \<open>dict\<close>: of two members with the same name,
  \<open>json.loads\<close> keeps the later one.
\<close>

definition dict_get :: "(string \<times> json) list \<Rightarrow> string \<Rightarrow> json option" where
  "dict_get kvs k = map_of (rev kvs) k"

section \<open>Settings (\<open>config/settings.py\<close>)\<close>

text \<open>
  The settings object is built once from the process environment.  Of its fields, the
  operations below read only the internal secret; the server fields are kept for the
  record's shape, the remaining connection, model and tuning fields are read by nothing
  in the repository.
\<close>

record Settings =
  host :: string
  port :: int
  log_level :: string
  internal_api_secret :: string

section \<open>Request models (\<open>models/requests.py\<close>)\<close>

datatype validation_error = ValidationError "string list"

record ChatRequest =
  message :: string
  session_id :: string
  metadata :: "(string \<times> json) list option"

text \<open>
  \<open>Field(..., min_length=1, max_length=2000)\<close> on a \<open>str\<close>: the member must be there, it
  must be a JSON string (pydantic converts no other JSON value to \<open>str\<close>), and its
  length in characters must lie within the bounds.  The result is the validated value,
  \<open>None\<close> when the field is in error.
\<close>

definition validate_message :: "json option \<Rightarrow> string option" where
  "validate_message v =
     (case v of
        Some (JStr s) \<Rightarrow> if 1 \<le> length s \<and> length s \<le> 2000 then Some s else None
      | _ \<Rightarrow> None)"

text \<open>
  The pattern \<open>^[a-f0-9-]{36}$\<close>: the character class holds \<open>a\<close> to \<open>f\<close>, the digits
  and the hyphen; the anchors make the match cover the whole string (pydantic's pattern
  engine reads \<open>$\<close> as the end of the input), so a match is exactly 36 characters of
  the class.
\<close>

definition session_char :: "char \<Rightarrow> bool" where
  "session_char c = (c \<in> set ''abcdef0123456789-'')"

definition matches_session_pattern :: "string \<Rightarrow> bool" where
  "matches_session_pattern s = (length s = 36 \<and> list_all session_char s)"

definition validate_session_id :: "json option \<Rightarrow> string option" where
  "validate_session_id v =
     (case v of
        Some (JStr s) \<Rightarrow> if matches_session_pattern s then Some s else None
      | _ \<Rightarrow> None)"

text \<open>
  \<open>dict[str, Any] | None = None\<close>: an absent member and \<open>null\<close> give \<open>None\<close>, an object
  is taken as it is, anything else is an error (the outer \<open>None\<close>).
\<close>

definition validate_metadata :: "json option \<Rightarrow> (string \<times> json) list option option" where
  "validate_metadata v =
     (case v of
        None \<Rightarrow> Some None
      | Some JNull \<Rightarrow> Some None
      | Some (JObj kvs) \<Rightarrow> Some (Some kvs)
      | _ \<Rightarrow> None)"

text \<open>
  Deserialization of a decoded JSON body into \<open>ChatRequest\<close>.  Pydantic validates every
  field and reports all the fields in error together; members it does not know are
  ignored.
\<close>

definition ChatRequest_validate :: "json \<Rightarrow> validation_error + ChatRequest" where
  "ChatRequest_validate body =
     (case body of
        JObj kvs \<Rightarrow>
          (case (validate_message (dict_get kvs ''message''),
                 validate_session_id (dict_get kvs ''session_id''),
                 validate_metadata (dict_get kvs ''metadata'')) of
             (Some m, Some s, Some md) \<Rightarrow>
               Inr \<lparr>message = m, session_id = s, metadata = md\<rparr>
           | (vm, vs, vmd) \<Rightarrow>
               Inl (ValidationError
                 ((if vm = None then [''message''] else [])
                  @ (if vs = None then [''session_id''] else [])
                  @ (if vmd = None then [''metadata''] else []))))
      | _ \<Rightarrow> Inl (ValidationError [''body'']))"

record ProcessDocumentRequest =
  document_id :: string
  client_id :: string
  file_data :: string
  file_type :: string
  original_name :: string
  pd_metadata :: "(string \<times> json) list option"

definition validate_str :: "json option \<Rightarrow> string option" where
  "validate_str v = (case v of Some (JStr s) \<Rightarrow> Some s | _ \<Rightarrow> None)"

text \<open>The pattern \<open>^(pdf|docx|txt|csv)$\<close>.\<close>

definition validate_file_type :: "json option \<Rightarrow> string option" where
  "validate_file_type v =
     (case v of
        Some (JStr s) \<Rightarrow>
          if s = ''pdf'' \<or> s = ''docx'' \<or> s = ''txt'' \<or> s = ''csv'' then Some s else None
      | _ \<Rightarrow> None)"

definition ProcessDocumentRequest_validate ::
  "json \<Rightarrow> validation_error + ProcessDocumentRequest" where
  "ProcessDocumentRequest_validate body =
     (case body of
        JObj kvs \<Rightarrow>
          (case (validate_str (dict_get kvs ''document_id''),
                 validate_str (dict_get kvs ''client_id''),
                 validate_str (dict_get kvs ''file_data''),
                 validate_file_type (dict_get kvs ''file_type''),
                 validate_str (dict_get kvs ''original_name''),
                 validate_metadata (dict_get kvs ''metadata'')) of
             (Some d, Some c, Some fd, Some ft, Some n, Some md) \<Rightarrow>
               Inr \<lparr>document_id = d, client_id = c, file_data = fd, file_type = ft,
                    original_name = n, pd_metadata = md\<rparr>
           | (vd, vc, vfd, vft, vn, vmd) \<Rightarrow>
               Inl (ValidationError
                 ((if vd = None then [''document_id''] else [])
                  @ (if vc = None then [''client_id''] else [])
                  @ (if vfd = None then [''file_data''] else [])
                  @ (if vft = None then [''file_type''] else [])
                  @ (if vn = None then [''original_name''] else [])
                  @ (if vmd = None then [''metadata''] else []))))
      | _ \<Rightarrow> Inl (ValidationError [''body'']))"

section \<open>Response models (\<open>models/responses.py\<close>)\<close>

record ChatSource =
  document_id :: string
  title :: string
  excerpt :: string
  score :: real

record ChatResponse =
  response :: string
  session_id :: string
  sources :: "ChatSource list option"
  trace_id :: string

datatype document_status = Pending | Parsing | Chunking | Embedding | Completed | Failed

record DocumentStatusResponse =
  document_id :: string
  status :: document_status
  progress :: int
  current_step :: "string option"
  chunks_total :: "int option"
  chunks_processed :: "int option"
  error_message :: "string option"

section \<open>Errors, log records and the environment\<close>

text \<open>
  \<open>HTTPException(status_code, detail)\<close> is raised by the repository's own code and by
  FastAPI; \<open>RequestValidationError\<close> is what FastAPI raises (and answers with status 422)
  when the body is not valid JSON or a declared parameter or the body does not validate;
  \<open>UnhandledException\<close> stands for any other exception that leaves a handler, with its
  \<open>str(e)\<close>: the application's handler for \<open>Exception\<close> (\<open>api/main.py\<close>) answers it with
  status 500.
\<close>

datatype http_error =
    HTTPException nat string
  | RequestValidationError validation_error
  | UnhandledException string

datatype log_level = Info | Error

datatype log_value = LStr string | LInt int

type_synonym log_entry = "log_level \<times> string \<times> (string \<times> log_value) list"

text \<open>
  The calls the handlers make into libraries: \<open>await asyncio.sleep(...)\<close> (in the
  streaming loop, the sleep of the iteration whose index variable is \<open>i\<close>; \<open>Sleep 0\<close>
  in the non-streaming handler) and \<open>logger.info(event, ...)\<close>, named by its event.
\<close>

datatype call = Sleep nat | Log string

text \<open>
  What a handler takes from its environment: the random bytes read by \<open>uuid.uuid4()\<close>,
  the value of \<open>int((time.time() - start_time) * 1000)\<close> (the arithmetic on clock
  readings is floating point and is not modelled), and, for each of these library
  calls, whether it raises an \<open>Exception\<close> and with which \<open>str(e)\<close>.  The call
  \<open>logger.error\<close>, made only inside \<open>except\<close> clauses, is taken to return.
\<close>

record env =
  urandom :: "128 word"
  latency_ms :: int
  raises :: "call \<Rightarrow> string option"

text \<open>The first of a sequence of calls that raises, if any.\<close>

fun first_raise :: "(call \<Rightarrow> string option) \<Rightarrow> call list \<Rightarrow> string option" where
  "first_raise r [] = None"
| "first_raise r (c # cs) = (case r c of Some e \<Rightarrow> Some e | None \<Rightarrow> first_raise r cs)"

section \<open>Dependencies (\<open>api/routes.py\<close>)\<close>

record client_config =
  client_id :: string
  tier :: string
  model :: string
  system_prompt :: "string option"

definition validate_api_key :: "string \<Rightarrow> http_error + client_config" where
  "validate_api_key x_api_key =
     (if x_api_key = [] \<or> \<not> startswith x_api_key ''pk_''
      then Inl (HTTPException 401 ''Invalid API key'')
      else Inr \<lparr>client_id = ''mock_client_123'', tier = ''free'', model = ''gpt-4o-mini'',
               system_prompt = None\<rparr>)"

text \<open>
  The header is declared \<open>Header(None, ...)\<close>: an absent header is the value \<open>None\<close>,
  which differs from every secret.
\<close>

definition validate_internal_secret :: "Settings \<Rightarrow> string option \<Rightarrow> http_error + bool" where
  "validate_internal_secret settings x_internal_secret =
     (if x_internal_secret \<noteq> Some (internal_api_secret settings)
      then Inl (HTTPException 401 ''Invalid internal secret'')
      else Inr True)"

section \<open>Chat handler (non-streaming)\<close>

definition response_text :: "ChatRequest \<Rightarrow> client_config \<Rightarrow> string" where
  "response_text request cfg =
     ''This is a mock response. Your message was: '' @ [apos]
       @ take 50 (message request) @ ''...'' @ [apos, nl, nl]
     @ ''Client tier: '' @ tier cfg @ [nl]
     @ ''Model: '' @ model cfg @ [nl, nl]
     @ ''The actual implementation will:'' @ [nl]
     @ ''1. Search your knowledge base for relevant context'' @ [nl]
     @ ''2. Generate a response using the appropriate LLM'' @ [nl]
     @ ''3. Return sources for the information provided''"

text \<open>
  The handler logs the request, then runs its \<open>try\<close> block: the sleep, the response
  text, the completion log, the response.  An \<open>Exception\<close> raised in the block is logged
  and turned into \<open>HTTPException(500)\<close>; one raised by the first log call, which stands
  before the block, leaves the handler.  The result comes with the log records written.
\<close>

definition chat ::
  "env \<Rightarrow> ChatRequest \<Rightarrow> client_config \<Rightarrow> (http_error + ChatResponse) \<times> log_entry list" where
  "chat e request cfg =
     (let trace = str_uuid (uuid4 (urandom e));
          received = (Info, ''chat_request_received'',
            [(''trace_id'', LStr trace), (''client_id'', LStr (client_id cfg)),
             (''message_length'', LInt (int (length (message request))))])
      in case raises e (Log ''chat_request_received'') of
           Some err \<Rightarrow> (Inl (UnhandledException err), [])
         | None \<Rightarrow>
             (case first_raise (raises e) [Sleep 0, Log ''chat_request_completed''] of
                None \<Rightarrow>
                  (Inr \<lparr>response = response_text request cfg,
                        session_id = ChatRequest.session_id request,
                        sources = Some [],
                        trace_id = trace\<rparr>,
                   [received,
                    (Info, ''chat_request_completed'',
                     [(''trace_id'', LStr trace), (''latency_ms'', LInt (latency_ms e))])])
              | Some err \<Rightarrow>
                  (Inl (HTTPException 500 ''Failed to process chat request''),
                   [received,
                    (Error, ''chat_request_failed'',
                     [(''trace_id'', LStr trace), (''error'', LStr err)])])))"

section \<open>Chat handler (streaming)\<close>

text \<open>One Server-Sent-Events frame, as each \<open>yield\<close> of the generator formats it.\<close>

definition sse :: "string \<Rightarrow> string \<Rightarrow> string" where
  "sse name payload = ''event: '' @ name @ [nl] @ ''data: '' @ payload @ [nl, nl]"

definition mock_response :: "ChatRequest \<Rightarrow> string" where
  "mock_response request =
     ''This is a mock streaming response. ''
     @ ''Your message was: '' @ [apos] @ take 30 (message request) @ ''...'' @ [apos, nl, nl]
     @ ''The actual implementation will stream tokens from the LLM in real-time.''"

text \<open>
  The loop \<open>for i in range(0, len(mock_response), chunk_size)\<close> with \<open>chunk_size = 10\<close>:
  each iteration yields one \<open>chunk\<close> frame and then sleeps.  The result is the frames
  yielded and, when a sleep raised, the exception's text; the loop stops there.
\<close>

function chunk_loop ::
  "(call \<Rightarrow> string option) \<Rightarrow> string \<Rightarrow> nat \<Rightarrow> string list \<times> string option" where
  "chunk_loop r text i =
     (if i < length text then
        (let chunk = take 10 (drop i text) in
         case r (Sleep i) of
           Some err \<Rightarrow> ([sse ''chunk'' chunk], Some err)
         | None \<Rightarrow>
             (case chunk_loop r text (i + 10) of
                (frames, exc) \<Rightarrow> (sse ''chunk'' chunk # frames, exc)))
      else ([], None))"
  by pat_completeness auto
termination
  by (relation "measure (\<lambda>(r, text, i). length text - i)") auto

definition error_frame :: "string \<Rightarrow> string" where
  "error_frame err =
     sse ''error'' (json_dumps (JObj [(''code'', JStr ''STREAM_ERROR''), (''message'', JStr err)]))"

text \<open>
  The generator: everything from the \<open>start\<close> frame to the completion log stands inside
  the \<open>try\<close> block, and the handler of \<open>except Exception\<close> logs the error and yields one
  \<open>error\<close> frame.  The result is the sequence of frames yielded and the log records.
\<close>

definition generate_stream ::
  "(call \<Rightarrow> string option) \<Rightarrow> string \<Rightarrow> ChatRequest \<Rightarrow> string list \<times> log_entry list" where
  "generate_stream r trace request =
     (let start = sse ''start'' trace;
          failed = (\<lambda>err. (Error, ''chat_stream_error'',
                      [(''trace_id'', LStr trace), (''error'', LStr err)]))
      in case chunk_loop r (mock_response request) 0 of
           (frames, Some err) \<Rightarrow> (start # frames @ [error_frame err], [failed err])
         | (frames, None) \<Rightarrow>
             (let sent = start # frames
                    @ [sse ''sources'' (json_dumps (JArr [])), sse ''done'' ''[DONE]'']
              in case r (Log ''chat_stream_completed'') of
                   Some err \<Rightarrow> (sent @ [error_frame err], [failed err])
                 | None \<Rightarrow>
                     (sent, [(Info, ''chat_stream_completed'', [(''trace_id'', LStr trace)])])))"

record StreamingResponse =
  body_iterator :: "string list"
  media_type :: string
  stream_headers :: "(string \<times> string) list"

text \<open>
  The handler logs the request (outside any \<open>try\<close> block, so an exception of that call
  leaves the handler) and returns the response whose body is the generator's.
\<close>

definition chat_stream ::
  "env \<Rightarrow> ChatRequest \<Rightarrow> client_config
   \<Rightarrow> (http_error + StreamingResponse) \<times> log_entry list" where
  "chat_stream e request cfg =
     (let trace = str_uuid (uuid4 (urandom e));
          received = (Info, ''chat_stream_request_received'',
            [(''trace_id'', LStr trace), (''client_id'', LStr (client_id cfg))])
      in case raises e (Log ''chat_stream_request_received'') of
           Some err \<Rightarrow> (Inl (UnhandledException err), [])
         | None \<Rightarrow>
             (case generate_stream (raises e) trace request of
                (frames, logged) \<Rightarrow>
                  (Inr \<lparr>body_iterator = frames,
                        media_type = ''text/event-stream'',
                        stream_headers = [(''Cache-Control'', ''no-cache''),
                                          (''Connection'', ''keep-alive''),
                                          (''X-Accel-Buffering'', ''no'')]\<rparr>,
                   received # logged)))"

section \<open>Document and internal handlers\<close>

definition process_document ::
  "env \<Rightarrow> ProcessDocumentRequest
   \<Rightarrow> (http_error + (string \<times> json) list) \<times> log_entry list" where
  "process_document e request =
     (let trace = str_uuid (uuid4 (urandom e))
      in case raises e (Log ''document_process_request'') of
           Some err \<Rightarrow> (Inl (UnhandledException err), [])
         | None \<Rightarrow>
             (Inr [(''success'', JBool True),
                   (''document_id'', JStr (ProcessDocumentRequest.document_id request)),
                   (''trace_id'', JStr trace),
                   (''status'', JStr ''processing''),
                   (''message'', JStr ''Document processing started'')],
              [(Info, ''document_process_request'',
                [(''trace_id'', LStr trace),
                 (''document_id'', LStr (ProcessDocumentRequest.document_id request)),
                 (''client_id'', LStr (ProcessDocumentRequest.client_id request)),
                 (''file_type'', LStr (file_type request))])]))"

definition get_document_status :: "string \<Rightarrow> DocumentStatusResponse" where
  "get_document_status doc_id =
     \<lparr>document_id = doc_id, status = Completed, progress = 100, current_step = None,
      chunks_total = Some 10, chunks_processed = Some 10, error_message = None\<rparr>"

definition validate_client :: "string \<Rightarrow> (string \<times> json) list" where
  "validate_client api_key =
     (if api_key = [] \<or> \<not> startswith api_key ''pk_''
      then [(''valid'', JBool False), (''error_message'', JStr ''Invalid API key format'')]
      else [(''valid'', JBool True), (''client_id'', JStr ''mock_client_123''),
            (''tier'', JStr ''free''), (''model'', JStr ''gpt-4o-mini''),
            (''allowed_domains'', JArr [JStr ''*''])])"

section \<open>Routes: how FastAPI calls the handlers\<close>

text \<open>
  What FastAPI's reading of the request body comes to, on a route that declares a body
  parameter: no bytes at all, and the body stays \<open>None\<close>; bytes under a JSON content
  type (or under none) that \<open>json.loads\<close> decodes; bytes under another content type,
  passed on as they are; bytes on which \<open>json.loads\<close> raises \<open>JSONDecodeError\<close>; or any
  other exception while the body is read or decoded.
\<close>

datatype received_body =
    No_body
  | Json_body json
  | Raw_body
  | Invalid_json
  | Unreadable_body

text \<open>
  A request after the server has read it: header names are lower-cased (Starlette looks
  a header up by its lower-cased name and takes the first value), \<open>received\<close> is the
  outcome of reading the body, and \<open>state_request_id\<close> is \<open>request.state.request_id\<close>.
\<close>

record http_request =
  http_method :: string
  url_path :: string
  headers :: "string \<rightharpoonup> string"
  query_params :: "string \<rightharpoonup> string"
  received :: received_body
  state_request_id :: "string option"

definition headers_get :: "(string \<rightharpoonup> string) \<Rightarrow> string \<Rightarrow> string option" where
  "headers_get hs name = hs (lower name)"

text \<open>
  The status the application answers with: the code of an \<open>HTTPException\<close>, 422 for a
  \<open>RequestValidationError\<close>, 500 for an exception no handler caught, 200 when the
  handler returns.
\<close>

definition status_of :: "http_error + 'a \<Rightarrow> nat" where
  "status_of r =
     (case r of
        Inl (HTTPException code detail) \<Rightarrow> code
      | Inl (RequestValidationError v) \<Rightarrow> 422
      | Inl (UnhandledException err) \<Rightarrow> 500
      | Inr x \<Rightarrow> 200)"

text \<open>
  On a route with a body parameter FastAPI reads and decodes the body before it solves
  any dependency: a \<open>JSONDecodeError\<close> is raised as a \<open>RequestValidationError\<close>, any
  other exception as \<open>HTTPException(400)\<close>, and the request ends there.
\<close>

definition body_read_error :: "received_body \<Rightarrow> http_error option" where
  "body_read_error b =
     (case b of
        Invalid_json \<Rightarrow> Some (RequestValidationError (ValidationError [''body'']))
      | Unreadable_body \<Rightarrow> Some (HTTPException 400 ''There was an error parsing the body'')
      | _ \<Rightarrow> None)"

text \<open>
  Validation of the body parameter, after the dependencies: a decoded JSON value is
  validated against the model; a body that stayed \<open>None\<close> is a missing field and raw
  bytes are no object, both an error at \<open>body\<close>.
\<close>

definition validate_body ::
  "(json \<Rightarrow> validation_error + 'a) \<Rightarrow> received_body \<Rightarrow> validation_error + 'a" where
  "validate_body validate b =
     (case b of
        Json_body j \<Rightarrow> validate j
      | _ \<Rightarrow> Inl (ValidationError [''body'']))"

text \<open>
  Both chat routes declare \<open>request: ChatRequest\<close> and
  \<open>client_config: dict = Depends(validate_api_key)\<close>, the key being
  \<open>Header(..., alias="x-api-key")\<close>, a required header.  FastAPI first solves the
  dependency: without the header it records a validation error and does not call
  \<open>validate_api_key\<close>; with it, it calls the function, whose \<open>HTTPException\<close> ends the
  request at once.  Then it validates the body.  Validation errors are raised together
  as one \<open>RequestValidationError\<close>; only when there is none is the handler called.
\<close>

definition body_errors :: "validation_error + 'a \<Rightarrow> string list" where
  "body_errors v = (case v of Inl (ValidationError fs) \<Rightarrow> fs | Inr x \<Rightarrow> [])"

definition solve_chat_dependencies ::
  "http_request \<Rightarrow> http_error + (ChatRequest \<times> client_config)" where
  "solve_chat_dependencies rq =
     (case headers_get (headers rq) ''x-api-key'' of
        None \<Rightarrow>
          Inl (RequestValidationError (ValidationError
            (''x-api-key''
             # body_errors (validate_body ChatRequest_validate (received rq)))))
      | Some x_api_key \<Rightarrow>
          (case validate_api_key x_api_key of
             Inl err \<Rightarrow> Inl err
           | Inr cfg \<Rightarrow>
               (case validate_body ChatRequest_validate (received rq) of
                  Inl v \<Rightarrow> Inl (RequestValidationError v)
                | Inr request \<Rightarrow> Inr (request, cfg))))"


text \<open>\<open>POST /api/widget/chat/stream\<close>.\<close>

definition chat_stream_route ::
  "env \<Rightarrow> http_request \<Rightarrow> (http_error + StreamingResponse) \<times> log_entry list" where
  "chat_stream_route e rq =
     (case body_read_error (received rq) of
        Some err \<Rightarrow> (Inl err, [])
      | None \<Rightarrow>
          (case solve_chat_dependencies rq of
             Inl err \<Rightarrow> (Inl err, [])
           | Inr (request, cfg) \<Rightarrow> chat_stream e request cfg))"

text \<open>
  The internal routes declare \<open>_: bool = Depends(validate_internal_secret)\<close>, the secret
  being \<open>Header(None, alias="X-Internal-Secret")\<close>, an optional header.  The dependency
  is solved before the route's own parameters and body are validated; on the route with
  a body parameter the body has been read and decoded before.

  \<open>POST /api/widget/process-document\<close>.
\<close>

definition process_document_route ::
  "Settings \<Rightarrow> env \<Rightarrow> http_request \<Rightarrow> (http_error + (string \<times> json) list) \<times> log_entry list" where
  "process_document_route settings e rq =
     (case body_read_error (received rq) of
        Some err \<Rightarrow> (Inl err, [])
      | None \<Rightarrow>
          (case validate_internal_secret settings
                  (headers_get (headers rq) ''X-Internal-Secret'') of
             Inl err \<Rightarrow> (Inl err, [])
           | Inr ok \<Rightarrow>
               (case validate_body ProcessDocumentRequest_validate (received rq) of
                  Inl v \<Rightarrow> (Inl (RequestValidationError v), [])
                | Inr request \<Rightarrow> process_document e request)))"

text \<open>
  \<open>GET /api/widget/documents/{document_id}/status\<close>; the identifier is the path segment.
  The route declares no body parameter, so no body is read.
\<close>

definition get_document_status_route ::
  "Settings \<Rightarrow> http_request \<Rightarrow> string \<Rightarrow> http_error + DocumentStatusResponse" where
  "get_document_status_route settings rq doc_id =
     (case validate_internal_secret settings (headers_get (headers rq) ''X-Internal-Secret'') of
        Inl err \<Rightarrow> Inl err
      | Inr ok \<Rightarrow> Inr (get_document_status doc_id))"

text \<open>
  \<open>POST /api/widget/internal/validate-client\<close>; \<open>api_key: str\<close> is a required query
  parameter, and there is no body parameter.
\<close>

definition validate_client_route ::
  "Settings \<Rightarrow> http_request \<Rightarrow> http_error + (string \<times> json) list" where
  "validate_client_route settings rq =
     (case validate_internal_secret settings (headers_get (headers rq) ''X-Internal-Secret'') of
        Inl err \<Rightarrow> Inl err
      | Inr ok \<Rightarrow>
          (case query_params rq ''api_key'' of
             None \<Rightarrow> Inl (RequestValidationError (ValidationError [''api_key'']))
           | Some api_key \<Rightarrow> Inr (validate_client api_key)))"

section \<open>Request logging middleware (\<open>api/main.py\<close>)\<close>

record 'b http_response =
  status_code :: nat
  response_headers :: "string \<rightharpoonup> string"
  content :: 'b

datatype py_exception = PyException string string

text \<open>
  The clock as the middleware reads it: \<open>int(start_time * 1000)\<close> and the duration in
  milliseconds.
\<close>

record clock =
  start_ms :: int
  duration_ms :: int

text \<open>
  \<open>call_next\<close> is the rest of the application: it returns a response or raises.  When
  it raises, the statements after the call do not run and the exception leaves the
  middleware.
\<close>

definition log_requests ::
  "clock \<Rightarrow> (http_request \<Rightarrow> py_exception + 'b http_response) \<Rightarrow> http_request
   \<Rightarrow> (py_exception + 'b http_response) \<times> log_entry list" where
  "log_requests clk call_next request =
     (let request_id =
            (case headers_get (headers request) ''X-Request-ID'' of
               Some v \<Rightarrow> v
             | None \<Rightarrow> ''req_'' @ str_int (start_ms clk))
      in case call_next (request\<lparr>state_request_id := Some request_id\<rparr>) of
           Inl exc \<Rightarrow> (Inl exc, [])
         | Inr resp \<Rightarrow>
             (Inr (resp\<lparr>response_headers :=
                     (response_headers resp)(lower ''X-Request-ID'' \<mapsto> request_id)\<rparr>),
              [(Info, ''http_request'',
                [(''request_id'', LStr request_id),
                 (''method'', LStr (http_method request)),
                 (''path'', LStr (url_path request)),
                 (''status_code'', LInt (int (status_code resp))),
                 (''duration_ms'', LInt (duration_ms clk))])]))"

section \<open>Reading an event stream\<close>

text \<open>
  The receiving side of a stream, which no code of the repository implements: how a
  client reads a body of Server-Sent Events, the format that the route's docstring and the
  specification name.  The body is cut into lines at line feeds, carriage returns and
  pairs of the two.  A line \<open>field: value\<close> sets the event's name (\<open>event\<close>) or adds a line
  to its data (\<open>data\<close>); one space after the colon is dropped; a line that starts with a
  colon and a line with any other field name are ignored.  An empty line ends the event:
  it is delivered, under the name \<open>message\<close> if it has none, when it has data.
\<close>

fun sse_lines :: "string \<Rightarrow> string \<Rightarrow> string list" where
  "sse_lines cur [] = []"
| "sse_lines cur (c # cs) =
     (if c = CHR 0x0A then rev cur # sse_lines [] cs
      else if c = CHR 0x0D then
        (case cs of
           [] \<Rightarrow> [rev cur]
         | d # ds \<Rightarrow> if d = CHR 0x0A then rev cur # sse_lines [] ds
                     else rev cur # sse_lines [] cs)
      else sse_lines (c # cur) cs)"

definition sse_field :: "string \<Rightarrow> string \<times> string" where
  "sse_field line =
     (let name = takeWhile (\<lambda>c. c \<noteq> CHR '':'') line;
          rest = drop (Suc (length name)) line
      in (name, if take 1 rest = '' '' then drop 1 rest else rest))"

fun sse_read :: "string \<Rightarrow> string list \<Rightarrow> string list \<Rightarrow> (string \<times> string) list" where
  "sse_read name data [] = []"
| "sse_read name data (line # rest) =
     (if line = [] then
        (if data = [] then sse_read [] [] rest
         else (if name = [] then ''message'' else name, join [CHR 0x0A] (rev data))
              # sse_read [] [] rest)
      else if take 1 line = '':'' then sse_read name data rest
      else
        (case sse_field line of
           (field, v) \<Rightarrow>
             if field = ''event'' then sse_read v data rest
             else if field = ''data'' then sse_read name (v # data) rest
             else sse_read name data rest))"

definition sse_events :: "string list \<Rightarrow> (string \<times> string) list" where
  "sse_events frames = sse_read [] [] (sse_lines [] (concat frames))"

section \<open>Header names and trace identifiers\<close>

lemma lower_request_id: "lower ''X-Request-ID'' = ''x-request-id''"
  by code_simp


lemma lower_internal_secret: "lower ''X-Internal-Secret'' = ''x-internal-secret''"
  by code_simp


section \<open>The document status route\<close>

text \<open>
  Claim C9.  For every document identifier, a request to
  \<open>GET /api/widget/documents/{document_id}/status\<close> that passes the internal-secret check
  is answered with the same fabricated snapshot whatever the identifier is: the response
  echoes the identifier and has status \<open>completed\<close>, progress 100, \<open>chunks_total\<close> 10 and
  \<open>chunks_processed\<close> 10.
\<close>

theorem document_status_fabricated:
  assumes "headers_get (headers rq) ''X-Internal-Secret'' = Some (internal_api_secret settings)"
  shows "get_document_status_route settings rq doc_id =
           Inr \<lparr>document_id = doc_id, status = Completed, progress = 100,
                current_step = None, chunks_total = Some 10, chunks_processed = Some 10,
                error_message = None\<rparr>"
  using assms
  by (simp add: get_document_status_route_def validate_internal_secret_def
      get_document_status_def)

theorem document_status_fabricated_witness:
  "get_document_status_route
     \<lparr>host = ''0.0.0.0'', port = 8000, log_level = ''info'', internal_api_secret = ''s3cret''\<rparr>
     \<lparr>http_method = ''GET'', url_path = ''/api/widget/documents/doc-42/status'',
      headers = [''x-internal-secret'' \<mapsto> ''s3cret''], query_params = Map.empty,
      received = No_body, state_request_id = None\<rparr>
     ''doc-42''
   = Inr \<lparr>document_id = ''doc-42'', status = Completed, progress = 100,
          current_step = None, chunks_total = Some 10, chunks_processed = Some 10,
          error_message = None\<rparr>"
  by (rule document_status_fabricated) (simp add: headers_get_def lower_internal_secret)

section \<open>The internal-secret dependency\<close>

text \<open>
  A request to \<open>POST /api/widget/process-document\<close> whose body is not valid JSON is
  refused with a validation error while the body is read, before any dependency is
  solved: with a missing (or wrong) secret it is not answered 401, and
  \<open>validate_internal_secret\<close> is not called.
\<close>

theorem process_document_invalid_json_counterexample:
  "process_document_route
     \<lparr>host = ''0.0.0.0'', port = 8000, log_level = ''info'', internal_api_secret = ''s3cret''\<rparr>
     \<lparr>urandom = 0, latency_ms = 0, raises = Map.empty\<rparr>
     \<lparr>http_method = ''POST'', url_path = ''/api/widget/process-document'',
      headers = Map.empty, query_params = Map.empty,
      received = Invalid_json, state_request_id = None\<rparr>
   = (Inl (RequestValidationError (ValidationError [''body''])), [])"
  by (simp add: process_document_route_def body_read_error_def)

text \<open>
  Claim C8, amended.  The internal-secret check succeeds if and only if the
  \<open>X-Internal-Secret\<close> header equals the configured secret, and on any mismatch, a
  missing header included, it fails with \<open>HTTPException(401)\<close>.  On the document status
  and validate-client routes every request with a mismatch is answered with that error,
  and so is, on the process-document route, every such request whose body could be read;
  the handler does not run (the route's result is the error and nothing is logged).  A
  process-document request whose body could not be read or decoded is refused with the
  error of the reading, before the check is called.
\<close>

theorem internal_secret_check:
  "(validate_internal_secret settings h = Inr True \<longleftrightarrow> h = Some (internal_api_secret settings))
   \<and> (h \<noteq> Some (internal_api_secret settings) \<longrightarrow>
        validate_internal_secret settings h = Inl (HTTPException 401 ''Invalid internal secret''))
   \<and> (headers_get (headers rq) ''X-Internal-Secret'' \<noteq> Some (internal_api_secret settings) \<longrightarrow>
        (body_read_error (received rq) = None \<longrightarrow>
           process_document_route settings e rq
             = (Inl (HTTPException 401 ''Invalid internal secret''), []))
        \<and> get_document_status_route settings rq doc_id
          = Inl (HTTPException 401 ''Invalid internal secret'')
        \<and> validate_client_route settings rq
          = Inl (HTTPException 401 ''Invalid internal secret''))
   \<and> (body_read_error (received rq) = Some err \<longrightarrow>
        process_document_route settings e rq = (Inl err, [])
        \<and> (err = RequestValidationError (ValidationError [''body''])
             \<or> err = HTTPException 400 ''There was an error parsing the body''))"
  by (auto simp add: validate_internal_secret_def process_document_route_def
      get_document_status_route_def validate_client_route_def body_read_error_def
      split: received_body.splits)

theorem internal_secret_check_witness:
  "validate_internal_secret
     \<lparr>host = ''0.0.0.0'', port = 8000, log_level = ''info'', internal_api_secret = ''s3cret''\<rparr>
     (Some ''guess'') = Inl (HTTPException 401 ''Invalid internal secret'')
   \<and> process_document_route
     \<lparr>host = ''0.0.0.0'', port = 8000, log_level = ''info'', internal_api_secret = ''s3cret''\<rparr>
     \<lparr>urandom = 0, latency_ms = 0, raises = Map.empty\<rparr>
     \<lparr>http_method = ''POST'', url_path = ''/api/widget/process-document'',
      headers = Map.empty, query_params = Map.empty,
      received = No_body, state_request_id = None\<rparr>
     = (Inl (HTTPException 401 ''Invalid internal secret''), [])"
  using internal_secret_check [of
     "\<lparr>host = ''0.0.0.0'', port = 8000, log_level = ''info'', internal_api_secret = ''s3cret''\<rparr>"
     "Some ''guess''"
     "\<lparr>http_method = ''POST'', url_path = ''/api/widget/process-document'',
      headers = Map.empty, query_params = Map.empty,
      received = No_body, state_request_id = None\<rparr>"
     "\<lparr>urandom = 0, latency_ms = 0, raises = Map.empty\<rparr>" "''d''"]
  by (simp add: headers_get_def body_read_error_def)

section \<open>The validate-client route\<close>

text \<open>
  With the secret accepted and no \<open>api_key\<close> query parameter, the route does not answer
  200 with \<open>valid\<close> false: the parameter is required, the request is refused with a
  validation error and \<open>validate_client\<close> is not called.
\<close>

theorem validate_client_missing_key_counterexample:
  "validate_client_route
     \<lparr>host = ''0.0.0.0'', port = 8000, log_level = ''info'', internal_api_secret = ''s3cret''\<rparr>
     \<lparr>http_method = ''POST'', url_path = ''/api/widget/internal/validate-client'',
      headers = [''x-internal-secret'' \<mapsto> ''s3cret''], query_params = Map.empty,
      received = No_body, state_request_id = None\<rparr>
   = Inl (RequestValidationError (ValidationError [''api_key'']))"
  by (simp add: validate_client_route_def validate_internal_secret_def headers_get_def
      lower_internal_secret)

text \<open>
  Claim C10, amended.  For every call to \<open>POST /api/widget/internal/validate-client\<close>
  that passes the internal-secret check, no \<open>api_key\<close> leads to an Unauthorized error:
  a key that is present and does not start with \<open>pk_\<close> (the empty key included) is
  answered 200 with \<open>valid\<close> false and an error message, a key that starts with \<open>pk_\<close>
  is answered 200 with \<open>valid\<close> true and the fixed mock client fields, and a request
  without the parameter is refused with a validation error (422).
\<close>

theorem validate_client_answers:
  assumes "headers_get (headers rq) ''X-Internal-Secret'' = Some (internal_api_secret settings)"
  shows "validate_client_route settings rq =
           (case query_params rq ''api_key'' of
              None \<Rightarrow> Inl (RequestValidationError (ValidationError [''api_key'']))
            | Some k \<Rightarrow>
                Inr (if startswith k ''pk_''
                     then [(''valid'', JBool True), (''client_id'', JStr ''mock_client_123''),
                           (''tier'', JStr ''free''), (''model'', JStr ''gpt-4o-mini''),
                           (''allowed_domains'', JArr [JStr ''*''])]
                     else [(''valid'', JBool False),
                           (''error_message'', JStr ''Invalid API key format'')]))
         \<and> status_of (validate_client_route settings rq) =
             (if query_params rq ''api_key'' = None then 422 else 200)"
  using assms
  by (auto simp add: validate_client_route_def validate_internal_secret_def validate_client_def
      status_of_def startswith_def split: option.splits)

theorem validate_client_answers_witness:
  "validate_client_route
     \<lparr>host = ''0.0.0.0'', port = 8000, log_level = ''info'', internal_api_secret = ''s3cret''\<rparr>
     \<lparr>http_method = ''POST'', url_path = ''/api/widget/internal/validate-client'',
      headers = [''x-internal-secret'' \<mapsto> ''s3cret''], query_params = [''api_key'' \<mapsto> ''sk_1''],
      received = No_body, state_request_id = None\<rparr>
   = Inr [(''valid'', JBool False), (''error_message'', JStr ''Invalid API key format'')]"
  using validate_client_answers [of
     "\<lparr>http_method = ''POST'', url_path = ''/api/widget/internal/validate-client'',
      headers = [''x-internal-secret'' \<mapsto> ''s3cret''], query_params = [''api_key'' \<mapsto> ''sk_1''],
      received = No_body, state_request_id = None\<rparr>"
     "\<lparr>host = ''0.0.0.0'', port = 8000, log_level = ''info'', internal_api_secret = ''s3cret''\<rparr>"]
  by (simp add: headers_get_def lower_internal_secret startswith_def)

section \<open>The external API-key dependency\<close>

lemma startswith_empty: "\<not> startswith [] ''pk_''"
  by (simp add: startswith_def)




section \<open>Deserialization of chat requests\<close>









section \<open>The non-streaming chat route\<close>




text \<open>
  The \<open>except\<close> clause of the handler: when a call inside the \<open>try\<close> block raises, the
  failure is logged and the request is answered with \<open>HTTPException(500)\<close>.
\<close>

lemma chat_exception_in_try_block:
  assumes "raises e (Log ''chat_request_received'') = None"
    and "first_raise (raises e) [Sleep 0, Log ''chat_request_completed''] = Some err"
  shows "fst (chat e request cfg) = Inl (HTTPException 500 ''Failed to process chat request'')"
  using assms by (simp add: chat_def Let_def)



section \<open>The request identifier\<close>

lemma digit_char_values:
  "digit_char 0 = CHR ''0''" "digit_char (Suc 0) = CHR ''1''" "digit_char 2 = CHR ''2''"
  "digit_char 3 = CHR ''3''" "digit_char 4 = CHR ''4''" "digit_char 5 = CHR ''5''"
  "digit_char 6 = CHR ''6''" "digit_char 7 = CHR ''7''" "digit_char 8 = CHR ''8''"
  "digit_char 9 = CHR ''9''"
  by code_simp+

lemma str_int_example: "str_int 1700000000123 = ''1700000000123''"
  by (simp add: str_int_def digit_char_values)

text \<open>
  A request may carry the header \<open>X-Request-ID\<close> with an empty value; the middleware
  echoes it, and the response's \<open>X-Request-ID\<close> header is empty.
\<close>

theorem empty_request_id_counterexample:
  "map_sum id (\<lambda>resp. headers_get (response_headers resp) ''X-Request-ID'')
     (fst (log_requests \<lparr>start_ms = 1700000000123, duration_ms = 4\<rparr>
        (\<lambda>rq. Inr \<lparr>status_code = 200, response_headers = Map.empty, content = ()\<rparr>)
        \<lparr>http_method = ''GET'', url_path = ''/health'',
         headers = [''x-request-id'' \<mapsto> ''''], query_params = Map.empty,
         received = No_body, state_request_id = None\<rparr>))
   = Inr (Some '''')"
  by (simp add: log_requests_def headers_get_def lower_request_id)

text \<open>
  Claim C6, amended.  For every request for which the rest of the application returns a
  response, whatever its status, the response leaves the middleware with an
  \<open>X-Request-ID\<close> header and is otherwise unchanged: when the request supplied the
  header, the response's header equals the supplied value; otherwise it is \<open>req_\<close>
  followed by the start time in milliseconds, which is not empty.
\<close>

theorem log_requests_request_id:
  "(headers_get (headers request) ''X-Request-ID'' = Some v
      \<and> call_next (request\<lparr>state_request_id := Some v\<rparr>) = Inr resp
    \<longrightarrow> (\<exists>resp'. fst (log_requests clk call_next request) = Inr resp'
          \<and> headers_get (response_headers resp') ''X-Request-ID'' = Some v
          \<and> status_code resp' = status_code resp \<and> content resp' = content resp))
   \<and> (headers_get (headers request) ''X-Request-ID'' = None
      \<and> call_next (request\<lparr>state_request_id := Some (''req_'' @ str_int (start_ms clk))\<rparr>)
          = Inr resp
    \<longrightarrow> (\<exists>resp'. fst (log_requests clk call_next request) = Inr resp'
          \<and> headers_get (response_headers resp') ''X-Request-ID''
              = Some (''req_'' @ str_int (start_ms clk))
          \<and> ''req_'' @ str_int (start_ms clk) \<noteq> []
          \<and> status_code resp' = status_code resp \<and> content resp' = content resp))"
  by (auto simp add: log_requests_def headers_get_def Let_def)

theorem log_requests_request_id_witness:
  "\<exists>resp'. fst (log_requests \<lparr>start_ms = 1700000000123, duration_ms = 4\<rparr>
        (\<lambda>rq. Inr \<lparr>status_code = 401, response_headers = Map.empty, content = ()\<rparr>)
        \<lparr>http_method = ''POST'', url_path = ''/api/widget/chat'',
         headers = Map.empty, query_params = Map.empty,
         received = No_body, state_request_id = None\<rparr>) = Inr resp'
     \<and> headers_get (response_headers resp') ''X-Request-ID'' = Some ''req_1700000000123''
     \<and> status_code resp' = 401"
proof -
  note s = str_int_example
  from log_requests_request_id [of
        "\<lparr>http_method = ''POST'', url_path = ''/api/widget/chat'',
         headers = Map.empty, query_params = Map.empty,
         received = No_body, state_request_id = None\<rparr>"
        v
        "\<lambda>rq. Inr \<lparr>status_code = 401, response_headers = Map.empty, content = ()\<rparr>"
        "\<lparr>status_code = 401, response_headers = Map.empty, content = ()\<rparr>"
        "\<lparr>start_ms = 1700000000123, duration_ms = 4\<rparr>"] s
  show ?thesis by (simp add: headers_get_def)
qed

section \<open>The streaming chat route\<close>

declare chunk_loop.simps [simp del]

text \<open>
  When no sleep raises, the loop yields one \<open>chunk\<close> frame for each consecutive slice of
  ten characters, and the slices make up the text from the loop's starting index on.
\<close>

lemma chunk_loop_no_raise:
  assumes "\<forall>j. r (Sleep j) = None"
  shows "\<exists>cs. chunk_loop r s i = (map (sse ''chunk'') cs, None)
          \<and> concat cs = drop i s
          \<and> (\<forall>k<length cs. cs ! k = take 10 (drop (i + 10 * k) s))"
  using assms
proof (induction r s i rule: chunk_loop.induct)
  case (1 r s i)
  show ?case
  proof (cases "i < length s")
    case False
    then show ?thesis
      by (subst chunk_loop.simps) simp
  next
    case True
    have quiet: "r (Sleep i) = None"
      using "1.prems" by simp
    from "1.IH" [OF True refl quiet] "1.prems"
    obtain cs where rest: "chunk_loop r s (i + 10) = (map (sse ''chunk'') cs, None)"
      and cat: "concat cs = drop (i + 10) s"
      and nth: "\<forall>k<length cs. cs ! k = take 10 (drop (i + 10 + 10 * k) s)"
      by blast
    let ?cs = "take 10 (drop i s) # cs"
    have "chunk_loop r s i = (map (sse ''chunk'') ?cs, None)"
      using True quiet rest by (subst chunk_loop.simps) simp
    moreover have "concat ?cs = drop i s"
    proof -
      have "take 10 (drop i s) @ drop 10 (drop i s) = drop i s"
        by (rule append_take_drop_id)
      then show ?thesis
        using cat by (simp add: add.commute)
    qed
    moreover have "\<forall>k<length ?cs. ?cs ! k = take 10 (drop (i + 10 * k) s)"
    proof (intro allI impI)
      fix k
      assume "k < length ?cs"
      then show "?cs ! k = take 10 (drop (i + 10 * k) s)"
        using nth by (cases k) (simp_all add: algebra_simps)
    qed
    ultimately show ?thesis
      by blast
  qed
qed

lemma json_dumps_empty_list: "json_dumps (JArr []) = ''[]''"
  by simp

text \<open>
  What the generator yields when nothing raises: the \<open>start\<close> frame with the trace
  identifier, one \<open>chunk\<close> frame for each slice of ten characters of the generated text,
  the \<open>sources\<close> frame and the \<open>done\<close> frame.
\<close>

lemma generate_stream_completed:
  assumes "\<forall>j. r (Sleep j) = None" and "r (Log ''chat_stream_completed'') = None"
  shows "\<exists>cs. fst (generate_stream r trace request)
              = sse ''start'' trace # map (sse ''chunk'') cs
                @ [sse ''sources'' ''[]'', sse ''done'' ''[DONE]'']
          \<and> concat cs = mock_response request
          \<and> (\<forall>k<length cs. cs ! k = take 10 (drop (10 * k) (mock_response request)))"
proof -
  from chunk_loop_no_raise [OF assms(1), of "mock_response request" 0]
  obtain cs where loop: "chunk_loop r (mock_response request) 0 = (map (sse ''chunk'') cs, None)"
    and cat: "concat cs = mock_response request"
    and nth: "\<forall>k<length cs. cs ! k = take 10 (drop (10 * k) (mock_response request))"
    by auto
  have "fst (generate_stream r trace request)
          = sse ''start'' trace # map (sse ''chunk'') cs
            @ [sse ''sources'' ''[]'', sse ''done'' ''[DONE]'']"
    using loop assms(2) by (simp add: generate_stream_def Let_def)
  with cat nth show ?thesis
    by blast
qed

lemma sse_payload_inject: "sse name p = sse name q \<longleftrightarrow> p = q"
  by (simp add: sse_def)

text \<open>
  The generated text always holds a blank line, so in every completed stream the slice
  of some \<open>chunk\<close> frame contains a line feed, and that frame has more lines than the
  \<open>event:\<close> line, the \<open>data:\<close> line and the terminating blank line.
\<close>

lemma mock_response_line_feed: "nl \<in> set (mock_response request)"
  by (simp add: mock_response_def)

lemma chunk_payload_with_line_feed:
  assumes "\<forall>j. r (Sleep j) = None" and "r (Log ''chat_stream_completed'') = None"
  shows "\<exists>c. sse ''chunk'' c \<in> set (fst (generate_stream r trace request)) \<and> nl \<in> set c"
proof -
  from generate_stream_completed [OF assms, of trace request]
  obtain cs where frames: "fst (generate_stream r trace request)
      = sse ''start'' trace # map (sse ''chunk'') cs
        @ [sse ''sources'' ''[]'', sse ''done'' ''[DONE]'']"
    and cat: "concat cs = mock_response request"
    by blast
  from cat mock_response_line_feed [of request] have "nl \<in> set (concat cs)"
    by simp
  then obtain c where "c \<in> set cs" and "nl \<in> set c"
    by auto
  with frames show ?thesis
    by auto
qed

text \<open>
  Whatever the environment does, the frames of a stream are the \<open>start\<close> frame, some
  \<open>chunk\<close> frames, and one of three endings: a lone \<open>error\<close> frame when a sleep of the
  loop raised; \<open>sources\<close> and \<open>done\<close> when nothing raised; and \<open>sources\<close>, \<open>done\<close> and
  then \<open>error\<close> when the completion log, which stands inside the \<open>try\<close> block after the
  \<open>done\<close> frame has been yielded, raised.
\<close>

lemma chunk_loop_frames: "\<exists>cs. fst (chunk_loop r s i) = map (sse ''chunk'') cs"
proof (induction r s i rule: chunk_loop.induct)
  case (1 r s i)
  show ?case
  proof (cases "i < length s")
    case False
    then show ?thesis
      by (subst chunk_loop.simps) simp
  next
    case True
    show ?thesis
    proof (cases "r (Sleep i)")
      case (Some err)
      with True have "fst (chunk_loop r s i) = map (sse ''chunk'') [take 10 (drop i s)]"
        by (subst chunk_loop.simps) simp
      then show ?thesis
        by blast
    next
      case None
      from "1.IH" [OF True refl None]
      obtain cs where "fst (chunk_loop r s (i + 10)) = map (sse ''chunk'') cs"
        by blast
      with True None
      have "fst (chunk_loop r s i) = map (sse ''chunk'') (take 10 (drop i s) # cs)"
        by (subst chunk_loop.simps) (auto split: prod.splits)
      then show ?thesis
        by blast
    qed
  qed
qed

lemma generate_stream_endings:
  "\<exists>cs. fst (generate_stream r trace request)
     = sse ''start'' trace # map (sse ''chunk'') cs
       @ (case (snd (chunk_loop r (mock_response request) 0),
                r (Log ''chat_stream_completed'')) of
            (Some err, logged) \<Rightarrow> [error_frame err]
          | (None, None) \<Rightarrow> [sse ''sources'' ''[]'', sse ''done'' ''[DONE]'']
          | (None, Some err) \<Rightarrow>
              [sse ''sources'' ''[]'', sse ''done'' ''[DONE]'', error_frame err])"
proof -
  obtain cs where cs: "fst (chunk_loop r (mock_response request) 0) = map (sse ''chunk'') cs"
    using chunk_loop_frames by blast
  obtain frames exc where loop: "chunk_loop r (mock_response request) 0 = (frames, exc)"
    by (cases "chunk_loop r (mock_response request) 0")
  with cs have frames: "frames = map (sse ''chunk'') cs"
    by simp
  have "fst (generate_stream r trace request)
     = sse ''start'' trace # map (sse ''chunk'') cs
       @ (case (exc, r (Log ''chat_stream_completed'')) of
            (Some err, logged) \<Rightarrow> [error_frame err]
          | (None, None) \<Rightarrow> [sse ''sources'' ''[]'', sse ''done'' ''[DONE]'']
          | (None, Some err) \<Rightarrow>
              [sse ''sources'' ''[]'', sse ''done'' ''[DONE]'', error_frame err])"
    using loop frames
    by (simp add: generate_stream_def Let_def split: option.splits)
  with loop show ?thesis
    by auto
qed

lemma generate_stream_completion_log_raises:
  assumes "\<forall>j. r (Sleep j) = None" and "r (Log ''chat_stream_completed'') = Some err"
  shows "\<exists>cs. fst (generate_stream r trace request)
              = sse ''start'' trace # map (sse ''chunk'') cs
                @ [sse ''sources'' ''[]'', sse ''done'' ''[DONE]'', error_frame err]"
proof -
  from chunk_loop_no_raise [OF assms(1), of "mock_response request" 0]
  obtain cs where loop: "chunk_loop r (mock_response request) 0 = (map (sse ''chunk'') cs, None)"
    by auto
  have "fst (generate_stream r trace request)
          = sse ''start'' trace # map (sse ''chunk'') cs
            @ [sse ''sources'' ''[]'', sse ''done'' ''[DONE]'', error_frame err]"
    using loop assms(2) by (simp add: generate_stream_def Let_def)
  then show ?thesis
    by blast
qed

text \<open>
  Claim C2.  Every stream is to end with exactly one terminal frame, \<open>done\<close> or \<open>error\<close>,
  never both, with nothing after it.  The generator breaks this when the call
  \<open>logger.info("chat_stream_completed", ...)\<close> raises: the \<open>done\<close> frame has been
  yielded, the exception is caught by \<open>except Exception\<close>, and an \<open>error\<close> frame follows
  the \<open>done\<close> frame.  The stream below is the one for the message \<open>hi\<close>.
\<close>

theorem stream_error_after_done:
  \<open>fst (generate_stream [Log ''chat_stream_completed'' \<mapsto> ''boom''] ''t1''
          \<lparr>message = ''hi'', session_id = ''123e4567-e89b-12d3-a456-426614174000'',
           metadata = None\<rparr>)
   = [''event: start\<newline>data: t1\<newline>\<newline>'',
      ''event: chunk\<newline>data: This is a \<newline>\<newline>'',
      ''event: chunk\<newline>data: mock strea\<newline>\<newline>'',
      ''event: chunk\<newline>data: ming respo\<newline>\<newline>'',
      ''event: chunk\<newline>data: nse. Your \<newline>\<newline>'',
      ''event: chunk\<newline>data: message wa\<newline>\<newline>'',
      ''event: chunk\<newline>data: s: 'hi...'\<newline>\<newline>'',
      ''event: chunk\<newline>data: \<newline>\<newline>The actu\<newline>\<newline>'',
      ''event: chunk\<newline>data: al impleme\<newline>\<newline>'',
      ''event: chunk\<newline>data: ntation wi\<newline>\<newline>'',
      ''event: chunk\<newline>data: ll stream \<newline>\<newline>'',
      ''event: chunk\<newline>data: tokens fro\<newline>\<newline>'',
      ''event: chunk\<newline>data: m the LLM \<newline>\<newline>'',
      ''event: chunk\<newline>data: in real-ti\<newline>\<newline>'',
      ''event: chunk\<newline>data: me.\<newline>\<newline>'',
      ''event: sources\<newline>data: []\<newline>\<newline>'',
      ''event: done\<newline>data: [DONE]\<newline>\<newline>'',
      ''event: error\<newline>data: {"code": "STREAM_ERROR", "message": "boom"}\<newline>\<newline>'']\<close>
  by code_simp

section \<open>The events of a stream as a client reads them\<close>

text \<open>
  The generator writes each slice of the text after \<open>data: \<close> as it is.  A slice that
  holds a line feed therefore spreads over several lines of the body, and only its first
  line is the data of the \<open>chunk\<close> event: what follows a blank line inside the slice is
  read as the beginning of another event.

  Claim C3.  The payloads of the \<open>chunk\<close> events of a completed stream, concatenated in
  the order of emission, are to be the generated text exactly.  The stream below is the
  one for the message \<open>hello\<close>, with nothing raising.  Its seventh \<open>chunk\<close> frame holds
  the slice that runs across the blank line of the generated text: the \<open>data:\<close> line of
  that frame carries two dots and the apostrophe only, and the characters that follow, up
  to \<open>The a\<close>, are the payload of no event.
\<close>

theorem chat_stream_slice_across_blank_line:
  "map_sum id body_iterator
     (fst (chat_stream_route
       \<lparr>urandom = 0, latency_ms = 0, raises = Map.empty\<rparr>
       \<lparr>http_method = ''POST'', url_path = ''/api/widget/chat/stream'',
        headers = [''x-api-key'' \<mapsto> ''pk_live_1''], query_params = Map.empty,
        received = Json_body (JObj [(''message'', JStr ''hello''),
                          (''session_id'', JStr ''123e4567-e89b-12d3-a456-426614174000'')]),
        state_request_id = None\<rparr>))
   = Inr [
        ''event: start\<newline>data: 00000000-0000-4000-8000-000000000000\<newline>\<newline>'',
        ''event: chunk\<newline>data: This is a \<newline>\<newline>'',
        ''event: chunk\<newline>data: mock strea\<newline>\<newline>'',
        ''event: chunk\<newline>data: ming respo\<newline>\<newline>'',
        ''event: chunk\<newline>data: nse. Your \<newline>\<newline>'',
        ''event: chunk\<newline>data: message wa\<newline>\<newline>'',
        ''event: chunk\<newline>data: s: 'hello.\<newline>\<newline>'',
        ''event: chunk\<newline>data: ..'\<newline>\<newline>The a\<newline>\<newline>'',
        ''event: chunk\<newline>data: ctual impl\<newline>\<newline>'',
        ''event: chunk\<newline>data: ementation\<newline>\<newline>'',
        ''event: chunk\<newline>data:  will stre\<newline>\<newline>'',
        ''event: chunk\<newline>data: am tokens \<newline>\<newline>'',
        ''event: chunk\<newline>data: from the L\<newline>\<newline>'',
        ''event: chunk\<newline>data: LM in real\<newline>\<newline>'',
        ''event: chunk\<newline>data: -time.\<newline>\<newline>'',
        ''event: sources\<newline>data: []\<newline>\<newline>'',
        ''event: done\<newline>data: [DONE]\<newline>\<newline>'']"
  by code_simp

text \<open>
  Read as an event stream, that body delivers \<open>chunk\<close> payloads whose concatenation is
  not the generated text: the blank line and the four characters after it are missing.
\<close>

lemma example_mock_response:
  "mock_response \<lparr>message = ''hello'', session_id = sid, metadata = md\<rparr>
   = ''This is a mock streaming response. Your message was: 'hello...'\<newline>\<newline>The actual implementation will stream tokens from the LLM in real-time.''"
  by (simp add: mock_response_def apos_def nl_def)

lemma chunk_payloads_read_from_stream:
  "map_sum id
     (\<lambda>resp. concat (map snd (filter (\<lambda>ev. fst ev = ''chunk'')
                (sse_events (body_iterator resp)))))
     (fst (chat_stream_route
       \<lparr>urandom = 0, latency_ms = 0, raises = Map.empty\<rparr>
       \<lparr>http_method = ''POST'', url_path = ''/api/widget/chat/stream'',
        headers = [''x-api-key'' \<mapsto> ''pk_live_1''], query_params = Map.empty,
        received = Json_body (JObj [(''message'', JStr ''hello''),
                          (''session_id'', JStr ''123e4567-e89b-12d3-a456-426614174000'')]),
        state_request_id = None\<rparr>))
   = Inr ''This is a mock streaming response. Your message was: 'hello...'ctual implementation will stream tokens from the LLM in real-time.''"
  by code_simp

text \<open>
  Claim C1.  The body of a completed stream is to consist of one \<open>start\<close> event, the
  \<open>chunk\<close> events, one \<open>sources\<close> event and one \<open>done\<close> event, and of no other event.
  The stream below is the one for the valid message made of six letters \<open>a\<close>, a blank
  line and the text \<open>data:pwn\<close>, with the key accepted and nothing raising.  The slice of
  its seventh \<open>chunk\<close> frame is that blank line followed by \<open>data:pwn\<close>: the frame ends
  its own event with empty data and then holds a complete second event, which has data
  \<open>pwn\<close> and no \<open>event:\<close> line.
\<close>

theorem chat_stream_event_from_message:
  "map_sum id body_iterator
     (fst (chat_stream_route
       \<lparr>urandom = 0, latency_ms = 0, raises = Map.empty\<rparr>
       \<lparr>http_method = ''POST'', url_path = ''/api/widget/chat/stream'',
        headers = [''x-api-key'' \<mapsto> ''pk_live_1''], query_params = Map.empty,
        received = Json_body (JObj [(''message'', JStr ''aaaaaa\<newline>\<newline>data:pwn''),
                          (''session_id'', JStr ''123e4567-e89b-12d3-a456-426614174000'')]),
        state_request_id = None\<rparr>))
   = Inr [
        ''event: start\<newline>data: 00000000-0000-4000-8000-000000000000\<newline>\<newline>'',
        ''event: chunk\<newline>data: This is a \<newline>\<newline>'',
        ''event: chunk\<newline>data: mock strea\<newline>\<newline>'',
        ''event: chunk\<newline>data: ming respo\<newline>\<newline>'',
        ''event: chunk\<newline>data: nse. Your \<newline>\<newline>'',
        ''event: chunk\<newline>data: message wa\<newline>\<newline>'',
        ''event: chunk\<newline>data: s: 'aaaaaa\<newline>\<newline>'',
        ''event: chunk\<newline>data: \<newline>\<newline>data:pwn\<newline>\<newline>'',
        ''event: chunk\<newline>data: ...'\<newline>\<newline>The \<newline>\<newline>'',
        ''event: chunk\<newline>data: actual imp\<newline>\<newline>'',
        ''event: chunk\<newline>data: lementatio\<newline>\<newline>'',
        ''event: chunk\<newline>data: n will str\<newline>\<newline>'',
        ''event: chunk\<newline>data: eam tokens\<newline>\<newline>'',
        ''event: chunk\<newline>data:  from the \<newline>\<newline>'',
        ''event: chunk\<newline>data: LLM in rea\<newline>\<newline>'',
        ''event: chunk\<newline>data: l-time.\<newline>\<newline>'',
        ''event: sources\<newline>data: []\<newline>\<newline>'',
        ''event: done\<newline>data: [DONE]\<newline>\<newline>'']"
  by code_simp

text \<open>
  Read as an event stream, that body delivers, between two \<open>chunk\<close> events, an event that
  is none of \<open>start\<close>, \<open>chunk\<close>, \<open>sources\<close> and \<open>done\<close>: its name is the default name
  \<open>message\<close> and its payload comes from the request's message.
\<close>

lemma events_read_from_stream:
  "map_sum id (\<lambda>resp. sse_events (body_iterator resp))
     (fst (chat_stream_route
       \<lparr>urandom = 0, latency_ms = 0, raises = Map.empty\<rparr>
       \<lparr>http_method = ''POST'', url_path = ''/api/widget/chat/stream'',
        headers = [''x-api-key'' \<mapsto> ''pk_live_1''], query_params = Map.empty,
        received = Json_body (JObj [(''message'', JStr ''aaaaaa\<newline>\<newline>data:pwn''),
                          (''session_id'', JStr ''123e4567-e89b-12d3-a456-426614174000'')]),
        state_request_id = None\<rparr>))
   = Inr [(''start'', ''00000000-0000-4000-8000-000000000000''),
          (''chunk'', ''This is a ''), (''chunk'', ''mock strea''),
          (''chunk'', ''ming respo''), (''chunk'', ''nse. Your ''),
          (''chunk'', ''message wa''), (''chunk'', ''s: 'aaaaaa''),
          (''chunk'', []), (''message'', ''pwn''),
          (''chunk'', ''...'' @ [apos]),
          (''chunk'', ''actual imp''), (''chunk'', ''lementatio''),
          (''chunk'', ''n will str''), (''chunk'', ''eam tokens''),
          (''chunk'', '' from the ''), (''chunk'', ''LLM in rea''),
          (''chunk'', ''l-time.''), (''sources'', ''[]''), (''done'', ''[DONE]'')]"
  by code_simp

end
